theory Spec2Isabelle
  imports Main "HOL-Library.Word"
begin

section \<open>The embedded engine, as the wrapper sees it\<close>

text \<open>
  The wrapper of \<^verbatim>\<open>MSQLite3.h\<close> / \<^verbatim>\<open>MSQLite3.cpp\<close> talks to the SQLite C library, which is not
  part of the repository. The library is a parameter of the model: every call the wrapper
  makes is appended to the history of calls, and an engine is any function from that
  history (the call just made is its last element) to the values the call hands back.
  Handles (\<^verbatim>\<open>sqlite3*\<close>, \<^verbatim>\<open>sqlite3_stmt*\<close>) are opaque addresses, \<open>None\<close> is the null pointer.
  A \<^verbatim>\<open>const char*\<close> is a \<open>string option\<close>, \<open>None\<close> again the null pointer.
\<close>

type_synonym handle = nat

datatype callback = no_callback | discard_rows | collect_rows

datatype call =
    sqlite3_open "string option"
  | sqlite3_exec "handle option" string callback
  | sqlite3_errmsg "handle option"
  | sqlite3_prepare_v3 "handle option" string int
  | sqlite3_bind_double "handle option" int "64 word"
  | sqlite3_bind_int "handle option" int "32 word"
  | sqlite3_bind_int64 "handle option" int "64 word"
  | sqlite3_bind_text "handle option" int string int
  | sqlite3_bind_null "handle option" int
  | sqlite3_clear_bindings "handle option"
  | sqlite3_reset "handle option"
  | sqlite3_step "handle option"
  | sqlite3_column_count "handle option"
  | sqlite3_column_name "handle option" int
  | sqlite3_column_text "handle option" int
  | sqlite3_finalize "handle option"

text \<open>
  What a call hands back: its \<^verbatim>\<open>int\<close> result (a status, or the column count), the handle
  it writes through its out-parameter (\<^verbatim>\<open>sqlite3_open\<close>, \<^verbatim>\<open>sqlite3_prepare_v3\<close>), and the
  character pointer it returns or leaves in \<^verbatim>\<open>errMsg\<close> (\<^verbatim>\<open>sqlite3_exec\<close>, \<^verbatim>\<open>sqlite3_errmsg\<close>,
  \<^verbatim>\<open>sqlite3_column_name\<close>, \<^verbatim>\<open>sqlite3_column_text\<close>).
\<close>

record response =
  rcode :: int
  out_handle :: "handle option"
  out_text :: "string option"

type_synonym engine = "call list \<Rightarrow> response"

definition SQLITE_OK :: int where
  "SQLITE_OK = 0"

definition SQLITE_ROW :: int where
  "SQLITE_ROW = 100"

definition SQLITE_DONE :: int where
  "SQLITE_DONE = 101"

text \<open>
  Two families of concrete engines, to run the model on: one that answers every call
  alike, and one that answers the n-th call of the history with the n-th entry of a script
  (and with \<open>dflt\<close> once the script is used up).
\<close>

definition reply :: "int \<Rightarrow> handle option \<Rightarrow> string option \<Rightarrow> response" where
  "reply c h t = \<lparr>rcode = c, out_handle = h, out_text = t\<rparr>"

definition engine_const :: "response \<Rightarrow> engine" where
  "engine_const r w = r"

definition engine_script :: "response list \<Rightarrow> response \<Rightarrow> engine" where
  "engine_script rs dflt w =
     (if 0 < length w \<and> length w \<le> length rs then rs ! (length w - 1) else dflt)"

section \<open>Errors and outcomes\<close>

text \<open>
  \<^verbatim>\<open>class SQLite3Error : public std::runtime_error\<close> and
  \<^verbatim>\<open>class ColumnNotFound : public SQLite3Error\<close>. A handler for the base class catches both,
  a handler for \<^verbatim>\<open>ColumnNotFound\<close> catches only the derived one.
\<close>

datatype error = SQLite3Error string | ColumnNotFound string

datatype handler = catch_SQLite3Error | catch_ColumnNotFound

fun caught_by :: "handler \<Rightarrow> error \<Rightarrow> bool" where
  "caught_by catch_SQLite3Error e = True"
| "caught_by catch_ColumnNotFound (ColumnNotFound n) = True"
| "caught_by catch_ColumnNotFound (SQLite3Error m) = False"

fun what :: "error \<Rightarrow> string" where
  "what (SQLite3Error m) = m"
| "what (ColumnNotFound colName) =
     ''There is no column by name: '' @ [CHR 0x27] @ colName @ [CHR 0x27] @ '' in current resultset''"

text \<open>
  A member function returns, throws, or has no defined behaviour (a null pointer turned
  into a \<^verbatim>\<open>std::string\<close>, an end iterator dereferenced).
\<close>

datatype 'a outcome = Returns 'a | Throws error | Undefined

text \<open>\<^verbatim>\<open>throw SQLite3Error(p)\<close> for a \<^verbatim>\<open>const char* p\<close>: the message is built from \<open>p\<close>.\<close>

definition throw_SQLite3Error :: "string option \<Rightarrow> 'a outcome" where
  "throw_SQLite3Error p = (case p of None \<Rightarrow> Undefined | Some m \<Rightarrow> Throws (SQLite3Error m))"

section \<open>ResultSet\<close>

text \<open>
  \<^verbatim>\<open>std::vector<std::unordered_map<std::string, std::string>> container\<close> with
  \<^verbatim>\<open>Container::iterator iterator\<close>. The iterator is the position it points at:
  \<open>0\<close> is \<^verbatim>\<open>container.begin()\<close>, \<open>length container\<close> is \<^verbatim>\<open>container.end()\<close>.
\<close>

type_synonym row = "string \<rightharpoonup> string"

record ResultSet =
  container :: "row list"
  iterator :: nat

definition ResultSet_ctor :: ResultSet where
  "ResultSet_ctor = \<lparr>container = [], iterator = 0\<rparr>"

text \<open>\<^verbatim>\<open>unordered_map::insert\<close>: a key already present keeps its value.\<close>

definition umap_insert :: "string \<Rightarrow> string \<Rightarrow> row \<Rightarrow> row" where
  "umap_insert k v m = (case m k of None \<Rightarrow> m(k \<mapsto> v) | Some old \<Rightarrow> m)"

definition addRecord :: "row \<Rightarrow> ResultSet \<Rightarrow> ResultSet" where
  "addRecord rcd rs = \<lparr>container = container rs @ [rcd], iterator = 0\<rparr>"

text \<open>
  The loop of \<^verbatim>\<open>addRecord(int count, const char** row, const char** cols)\<close>. The two arrays
  are lists of pointers; reading past their end, or a null column name, is undefined.
\<close>

function insert_columns ::
  "int \<Rightarrow> int \<Rightarrow> string option list \<Rightarrow> string option list \<Rightarrow> row \<Rightarrow> row outcome" where
  "insert_columns i count row cols icontain =
     (if i < count then
        (if 0 \<le> i \<and> nat i < length cols \<and> nat i < length row then
           (case cols ! nat i of
              None \<Rightarrow> Undefined
            | Some c \<Rightarrow>
                insert_columns (i + 1) count row cols
                  (umap_insert c (case row ! nat i of Some v \<Rightarrow> v | None \<Rightarrow> []) icontain))
         else Undefined)
      else Returns icontain)"
  by pat_completeness auto
termination
  by (relation "measure (\<lambda>(i, count, row, cols, icontain). nat (count - i))") auto

declare insert_columns.simps [simp del]

definition addRecord_arrays ::
  "int \<Rightarrow> string option list \<Rightarrow> string option list \<Rightarrow> ResultSet \<Rightarrow> ResultSet outcome" where
  "addRecord_arrays count row cols rs =
     (if count \<noteq> 0 then
        (case insert_columns 0 count row cols Map.empty of
           Returns icontain \<Rightarrow> Returns (addRecord icontain rs)
         | Throws x \<Rightarrow> Throws x
         | Undefined \<Rightarrow> Undefined)
      else Returns rs)"

definition operator_bool :: "ResultSet \<Rightarrow> bool" where
  "operator_bool rs = (length (container rs) > 0 \<and> iterator rs \<noteq> length (container rs))"

definition ResultSet_next :: "ResultSet \<Rightarrow> bool \<times> ResultSet" where
  "ResultSet_next rs =
     (let rs' = (if iterator rs \<noteq> length (container rs)
                 then rs\<lparr>iterator := iterator rs + 1\<rparr> else rs)
      in (iterator rs' \<noteq> length (container rs'), rs'))"

definition ResultSet_count :: "ResultSet \<Rightarrow> nat" where
  "ResultSet_count rs = length (container rs)"

text \<open>
  \<^verbatim>\<open>template<typename T> T get(const std::string& name)\<close>. The conversion of the stored text
  (the stream extraction into \<^verbatim>\<open>rval\<close>) is the parameter \<open>conv\<close>; \<^verbatim>\<open>iterator->find\<close> on the
  end iterator is undefined.
\<close>

definition get :: "(string \<Rightarrow> 'a) \<Rightarrow> ResultSet \<Rightarrow> string \<Rightarrow> 'a outcome" where
  "get conv rs name =
     (if iterator rs < length (container rs) then
        (case (container rs ! iterator rs) name of
           Some v \<Rightarrow> Returns (conv v)
         | None \<Rightarrow> Throws (ColumnNotFound name))
      else Undefined)"

text \<open>
  A use of a \<^verbatim>\<open>ResultSet\<close> is a sequence of calls of the two \<^verbatim>\<open>addRecord\<close> overloads and of
  \<^verbatim>\<open>next\<close> on the object its constructor made. \<open>additions\<close> counts the calls in it that add a
  record: every \<^verbatim>\<open>addRecord(record)\<close>, and every \<^verbatim>\<open>addRecord(count, row, cols)\<close> whose count is
  not zero.
\<close>

datatype rs_op =
    op_addRecord row
  | op_addRecord_arrays int "string option list" "string option list"
  | op_next

fun run_op :: "ResultSet outcome \<Rightarrow> rs_op \<Rightarrow> ResultSet outcome" where
  "run_op (Returns rs) (op_addRecord r) = Returns (addRecord r rs)"
| "run_op (Returns rs) (op_addRecord_arrays count vals cols) = addRecord_arrays count vals cols rs"
| "run_op (Returns rs) op_next = Returns (snd (ResultSet_next rs))"
| "run_op (Throws x) opn = Throws x"
| "run_op Undefined opn = Undefined"

fun additions :: "rs_op list \<Rightarrow> nat" where
  "additions [] = 0"
| "additions (op_addRecord r # ops) = Suc (additions ops)"
| "additions (op_addRecord_arrays count vals cols # ops) =
     (if count \<noteq> 0 then Suc (additions ops) else additions ops)"
| "additions (op_next # ops) = additions ops"

subsection \<open>The conversions of the C++ library that \<^verbatim>\<open>get\<close> is instantiated with\<close>

text \<open>
  \<^verbatim>\<open>std::getline\<close>, \<^verbatim>\<open>operator>>\<close> for \<^verbatim>\<open>int\<close> and \<^verbatim>\<open>std::get_time\<close> belong to the C++ standard
  library, not to the repository. They are written out here after the ISO C++ description
  of the classic locale: \<^verbatim>\<open>getline\<close> takes the characters before the first newline; the
  extraction of an \<^verbatim>\<open>int\<close> skips leading white space, reads an optional sign and decimal
  digits, yields 0 when there is no digit and the nearest bound when the value does not fit;
  \<^verbatim>\<open>get_time\<close> walks the format, a conversion reading a bounded run of digits in its range, a
  white-space character of the format skipping any white space of the input, any other
  character matching itself, and stops at the first mismatch with the fields read so far.
  The operator \<^verbatim>\<open>>>\<close> that applies \<^verbatim>\<open>get_time\<close> to the stream skips leading white space first, as
  every formatted extraction does.
\<close>

definition isspace :: "char \<Rightarrow> bool" where
  "isspace c = (let n = (of_char c :: nat) in n = 32 \<or> (9 \<le> n \<and> n \<le> 13))"

definition isdigit :: "char \<Rightarrow> bool" where
  "isdigit c = (let n = (of_char c :: nat) in 48 \<le> n \<and> n \<le> 57)"

definition digit_value :: "char \<Rightarrow> int" where
  "digit_value c = int (of_char c) - 48"

definition decimal :: "string \<Rightarrow> int" where
  "decimal ds = foldl (\<lambda>a c. 10 * a + digit_value c) 0 ds"

definition INT_MAX :: int where
  "INT_MAX = 2147483647"

definition INT_MIN :: int where
  "INT_MIN = - 2147483648"


definition extract_int :: "string \<Rightarrow> int" where
  "extract_int s =
     (let t = dropWhile isspace s;
          neg = (case t of [] \<Rightarrow> False | c # r \<Rightarrow> c = CHR ''-'');
          u = (case t of [] \<Rightarrow> [] | c # r \<Rightarrow> if c = CHR ''-'' \<or> c = CHR ''+'' then r else t);
          ds = takeWhile isdigit u;
          v = (if neg then - decimal ds else decimal ds)
      in if ds = [] then 0
         else if INT_MAX < v then INT_MAX
         else if v < INT_MIN then INT_MIN
         else v)"







text \<open>
  The texts of the pattern, to state what \<^verbatim>\<open>get_time\<close> does on them: a year of four digits
  and five fields of two digits, with the separators of the format.
\<close>

definition dig :: "nat \<Rightarrow> char" where
  "dig k = ''0123456789'' ! k"








section \<open>SQLite3, the connection\<close>

record SQLite3 =
  db :: "handle option"
  errMsg :: "string option"
  result :: int
  isOpened :: bool

text \<open>\<^verbatim>\<open>std::to_string(int)\<close>.\<close>

function string_of_nat :: "nat \<Rightarrow> string" where
  "string_of_nat n =
     (if n < 10 then [dig n] else string_of_nat (n div 10) @ [dig (n mod 10)])"
  by pat_completeness auto
termination
  by (relation "measure (\<lambda>n. n)") auto

declare string_of_nat.simps [simp del]

definition to_string :: "int \<Rightarrow> string" where
  "to_string i = (if i < 0 then CHR ''-'' # string_of_nat (nat (- i)) else string_of_nat (nat i))"

text \<open>
  The constructor. \<^verbatim>\<open>result\<close> holds the status of the open and is then overwritten by the
  status of the script, when there is one; the message of the error is the concatenation
  of a \<^verbatim>\<open>std::string\<close> with the pointer \<^verbatim>\<open>errMsg\<close>, which only \<^verbatim>\<open>sqlite3_exec\<close> sets.
\<close>

definition SQLite3_ctor ::
  "engine \<Rightarrow> string option \<Rightarrow> string option \<Rightarrow> call list \<Rightarrow> SQLite3 outcome \<times> call list" where
  "SQLite3_ctor e dbPath createStmt w =
     (let w1 = w @ [sqlite3_open dbPath];
          c1 = \<lparr>db = out_handle (e w1), errMsg = None, result = rcode (e w1),
                isOpened = (rcode (e w1) = SQLITE_OK)\<rparr>;
          w2 = (case createStmt of
                  Some sql \<Rightarrow> w1 @ [sqlite3_exec (db c1) sql discard_rows]
                | None \<Rightarrow> w1);
          c2 = (case createStmt of
                  Some sql \<Rightarrow> c1\<lparr>result := rcode (e w2), errMsg := out_text (e w2)\<rparr>
                | None \<Rightarrow> c1)
      in if result c2 \<noteq> SQLITE_OK then
           (case errMsg c2 of
              None \<Rightarrow> (Undefined, w2)
            | Some m \<Rightarrow>
                (Throws (SQLite3Error
                   (''Database can'' @ [CHR 0x27] @ ''t be initialized: '' @ [CHR 0x0A] @ ''Result: ''
                      @ to_string (result c2) @ [CHR 0x09] @ m)), w2))
         else (Returns c2, w2))"

definition isPrepared :: "SQLite3 \<Rightarrow> bool" where
  "isPrepared c = isOpened c"

definition SQLite3_error :: "SQLite3 \<Rightarrow> string" where
  "SQLite3_error c = (case errMsg c of Some m \<Rightarrow> m | None \<Rightarrow> ''NULL'')"

text \<open>\<^verbatim>\<open>void SQLite3::execute(const char* sql)\<close>: the only test on \<^verbatim>\<open>sql\<close> is \<^verbatim>\<open>if (sql)\<close>.\<close>

definition SQLite3_execute ::
  "engine \<Rightarrow> string option \<Rightarrow> SQLite3 \<times> call list \<Rightarrow> unit outcome \<times> SQLite3 \<times> call list" where
  "SQLite3_execute e sql cw =
     (case sql of
        Some s \<Rightarrow>
          (let w' = snd cw @ [sqlite3_exec (db (fst cw)) s discard_rows];
               c' = (fst cw)\<lparr>result := rcode (e w'), errMsg := out_text (e w')\<rparr>
           in if result c' \<noteq> SQLITE_OK then (throw_SQLite3Error (errMsg c'), c', w')
              else (Returns (), c', w'))
      | None \<Rightarrow> (Throws (SQLite3Error ''No sql parameter''), fst cw, snd cw))"

text \<open>The connection that a constructor without a script leaves when the open succeeds.\<close>

definition opened :: "handle \<Rightarrow> SQLite3" where
  "opened h = \<lparr>db = Some h, errMsg = None, result = SQLITE_OK, isOpened = True\<rparr>"

section \<open>PreparedStatement\<close>

record PreparedStatement =
  db :: "handle option"
  stmt :: "handle option"
  rc :: int
  paramCount :: int

text \<open>
  The values a parameter pack can hold, by the overload of \<^verbatim>\<open>prepareParam\<close> that the
  argument selects: a floating-point value (its 64 bits as a \<^verbatim>\<open>double\<close>), an integral value
  other than \<^verbatim>\<open>sqlite_int64\<close>, \<^verbatim>\<open>char\<close> and \<^verbatim>\<open>bool\<close> (converted to the \<^verbatim>\<open>int\<close> that
  \<^verbatim>\<open>sqlite3_bind_int\<close> takes), a \<^verbatim>\<open>sqlite_int64\<close>, a \<^verbatim>\<open>const char*\<close>, a \<^verbatim>\<open>std::string\<close>, a
  \<^verbatim>\<open>char\<close> and a \<^verbatim>\<open>bool\<close>.
\<close>

datatype param =
    P_floating "64 word"
  | P_integral int
  | P_int64 "64 word"
  | P_cstr "string option"
  | P_string string
  | P_char char
  | P_bool bool

text \<open>
  The engine call one parameter turns into. A text binding records the bytes the pointer
  refers to and the length argument: \<open>-1\<close> for a \<^verbatim>\<open>const char*\<close>, \<^verbatim>\<open>param.length()\<close> for a
  \<^verbatim>\<open>std::string\<close> (kept as it is: a length of \<open>2^31\<close> or more does not fit the \<^verbatim>\<open>int\<close>
  argument), \<open>1\<close> for a \<^verbatim>\<open>char\<close>. The last argument is \<^verbatim>\<open>SQLITE_STATIC\<close> throughout and is left
  out. A \<^verbatim>\<open>bool\<close> goes through
  \<^verbatim>\<open>prepareParam(static_cast<int>(param), index)\<close>, the integral overload.
\<close>

fun bind_call :: "handle option \<Rightarrow> param \<Rightarrow> int \<Rightarrow> call" where
  "bind_call st (P_floating d) index = sqlite3_bind_double st index d"
| "bind_call st (P_integral i) index = sqlite3_bind_int st index (word_of_int i)"
| "bind_call st (P_int64 i) index = sqlite3_bind_int64 st index i"
| "bind_call st (P_cstr (Some s)) index = sqlite3_bind_text st index s (- 1)"
| "bind_call st (P_cstr None) index = sqlite3_bind_null st index"
| "bind_call st (P_string s) index = sqlite3_bind_text st index s (int (length s))"
| "bind_call st (P_char c) index = sqlite3_bind_text st index [c] 1"
| "bind_call st (P_bool b) index = sqlite3_bind_int st index (word_of_int (if b then 1 else 0))"

text \<open>\<^verbatim>\<open>prepareParam(param, index)\<close>: the call is made and its status stored in \<^verbatim>\<open>rc\<close>.\<close>

definition prepareParam ::
  "engine \<Rightarrow> param \<Rightarrow> int \<Rightarrow> PreparedStatement \<times> call list \<Rightarrow> PreparedStatement \<times> call list" where
  "prepareParam e p index psw =
     (let w' = snd psw @ [bind_call (stmt (fst psw)) p index]
      in ((fst psw)\<lparr>rc := rcode (e w')\<rparr>, w'))"

text \<open>The pack expansion of \<^verbatim>\<open>bind\<close>: \<^verbatim>\<open>prepareParam(args, ++index)\<close>, left to right.\<close>

fun prepare_all ::
  "engine \<Rightarrow> param list \<Rightarrow> int \<Rightarrow> PreparedStatement \<times> call list \<Rightarrow> PreparedStatement \<times> call list" where
  "prepare_all e [] index psw = psw"
| "prepare_all e (p # ps) index psw = prepare_all e ps (index + 1) (prepareParam e p (index + 1) psw)"

text \<open>The calls that the expansion makes for a pack, in order.\<close>

fun bind_calls :: "handle option \<Rightarrow> param list \<Rightarrow> int \<Rightarrow> call list" where
  "bind_calls st [] index = []"
| "bind_calls st (p # ps) index = bind_call st p (index + 1) # bind_calls st ps (index + 1)"

definition bind ::
  "engine \<Rightarrow> param list \<Rightarrow> PreparedStatement \<times> call list
     \<Rightarrow> unit outcome \<times> PreparedStatement \<times> call list" where
  "bind e args psw =
     (if int (length args) \<noteq> paramCount (fst psw) then
        (Throws (SQLite3Error ''Count of arguments does not equal count of questionmarks''),
         fst psw, snd psw)
      else
        (case prepare_all e args 0 psw of
           (ps', w') \<Rightarrow>
             if rc ps' \<noteq> SQLITE_OK then
               (throw_SQLite3Error (out_text (e (w' @ [sqlite3_errmsg (db ps')]))),
                ps', w' @ [sqlite3_errmsg (db ps')])
             else (Returns (), ps', w')))"

text \<open>
  The private constructor, reached through \<^verbatim>\<open>SQLite3::createPreparedStatement\<close>.
  \<^verbatim>\<open>paramCount\<close> is \<^verbatim>\<open>std::count(query.begin(), query.end(), '?')\<close>.
\<close>

definition PreparedStatement_ctor ::
  "engine \<Rightarrow> handle option \<Rightarrow> string \<Rightarrow> param list \<Rightarrow> call list
     \<Rightarrow> PreparedStatement outcome \<times> call list" where
  "PreparedStatement_ctor e dbh query args w =
     (let w1 = w @ [sqlite3_prepare_v3 dbh query (int (length query))];
          ps1 = \<lparr>db = dbh, stmt = out_handle (e w1), rc = rcode (e w1),
                 paramCount = int (count_list query (CHR ''?''))\<rparr>
      in if rc ps1 \<noteq> SQLITE_OK then
           (throw_SQLite3Error (out_text (e (w1 @ [sqlite3_errmsg dbh]))), w1 @ [sqlite3_errmsg dbh])
         else if 0 < length args then
           (case bind e args (ps1, w1) of
              (Returns u, ps2, w2) \<Rightarrow> (Returns ps2, w2)
            | (Throws x, ps2, w2) \<Rightarrow> (Throws x, w2)
            | (Undefined, ps2, w2) \<Rightarrow> (Undefined, w2))
         else (Returns ps1, w1))"

definition createPreparedStatement ::
  "engine \<Rightarrow> string \<Rightarrow> param list \<Rightarrow> SQLite3 \<times> call list
     \<Rightarrow> PreparedStatement outcome \<times> call list" where
  "createPreparedStatement e query args cw =
     PreparedStatement_ctor e (SQLite3.db (fst cw)) query args (snd cw)"

definition reset :: "engine \<Rightarrow> PreparedStatement \<times> call list \<Rightarrow> PreparedStatement \<times> call list" where
  "reset e psw =
     (let w1 = snd psw @ [sqlite3_clear_bindings (stmt (fst psw))];
          w2 = w1 @ [sqlite3_reset (stmt (fst psw))]
      in ((fst psw)\<lparr>rc := rcode (e w2)\<rparr>, w2))"

text \<open>
  \<^verbatim>\<open>execute()\<close>: \<^verbatim>\<open>do { rc = sqlite3_step(stmt); } while (rc == SQLITE_ROW);\<close>. The engine may
  report a row for ever, so the loop is a partial function: \<open>None\<close> is the loop that never
  ends.
\<close>

partial_function (option) step_loop ::
  "engine \<Rightarrow> PreparedStatement \<Rightarrow> call list \<Rightarrow> (PreparedStatement \<times> call list) option" where
  "step_loop e ps w =
     (if rcode (e (w @ [sqlite3_step (stmt ps)])) = SQLITE_ROW
      then step_loop e (ps\<lparr>rc := rcode (e (w @ [sqlite3_step (stmt ps)]))\<rparr>) (w @ [sqlite3_step (stmt ps)])
      else Some (ps\<lparr>rc := rcode (e (w @ [sqlite3_step (stmt ps)]))\<rparr>, w @ [sqlite3_step (stmt ps)]))"

definition PreparedStatement_execute ::
  "engine \<Rightarrow> PreparedStatement \<times> call list
     \<Rightarrow> (unit outcome \<times> PreparedStatement \<times> call list) option" where
  "PreparedStatement_execute e psw =
     (case step_loop e (fst psw) (snd psw) of
        None \<Rightarrow> None
      | Some (ps', w') \<Rightarrow>
          Some (if rc ps' \<noteq> SQLITE_DONE then
                  (throw_SQLite3Error (out_text (e (w' @ [sqlite3_errmsg (db ps')]))),
                   ps', w' @ [sqlite3_errmsg (db ps')])
                else (Returns (), ps', w')))"

text \<open>
  \<^verbatim>\<open>executeQuery()\<close>. The inner loop asks for the column count before every column and
  builds the pair of \<^verbatim>\<open>std::string\<close>s from the two pointers the engine returns, the name
  first; a null pointer there has no defined conversion. The outer loop stops at the first
  step that is not \<^verbatim>\<open>SQLITE_ROW\<close>, whatever it is, and the status is not kept.
\<close>

partial_function (option) collect_columns ::
  "engine \<Rightarrow> handle option \<Rightarrow> int \<Rightarrow> row \<Rightarrow> call list \<Rightarrow> (row outcome \<times> call list) option" where
  "collect_columns e st colIndex rcd w =
     (if colIndex < rcode (e (w @ [sqlite3_column_count st])) then
        (case (out_text (e (w @ [sqlite3_column_count st, sqlite3_column_name st colIndex])),
               out_text (e (w @ [sqlite3_column_count st, sqlite3_column_name st colIndex,
                                 sqlite3_column_text st colIndex]))) of
           (Some n, Some v) \<Rightarrow>
             collect_columns e st (colIndex + 1) (umap_insert n v rcd)
               (w @ [sqlite3_column_count st, sqlite3_column_name st colIndex,
                     sqlite3_column_text st colIndex])
         | (Some n, None) \<Rightarrow>
             Some (Undefined, w @ [sqlite3_column_count st, sqlite3_column_name st colIndex,
                                   sqlite3_column_text st colIndex])
         | (None, t) \<Rightarrow>
             Some (Undefined, w @ [sqlite3_column_count st, sqlite3_column_name st colIndex,
                                   sqlite3_column_text st colIndex]))
      else Some (Returns rcd, w @ [sqlite3_column_count st]))"

partial_function (option) collect_rows_loop ::
  "engine \<Rightarrow> handle option \<Rightarrow> ResultSet \<Rightarrow> call list \<Rightarrow> (ResultSet outcome \<times> call list) option" where
  "collect_rows_loop e st rs w =
     (if rcode (e (w @ [sqlite3_step st])) = SQLITE_ROW then
        (case collect_columns e st 0 Map.empty (w @ [sqlite3_step st]) of
           None \<Rightarrow> None
         | Some (Returns rcd, w') \<Rightarrow> collect_rows_loop e st (addRecord rcd rs) w'
         | Some (Throws x, w') \<Rightarrow> Some (Throws x, w')
         | Some (Undefined, w') \<Rightarrow> Some (Undefined, w'))
      else Some (Returns rs, w @ [sqlite3_step st]))"

definition PreparedStatement_executeQuery ::
  "engine \<Rightarrow> PreparedStatement \<times> call list \<Rightarrow> (ResultSet outcome \<times> call list) option" where
  "PreparedStatement_executeQuery e psw =
     collect_rows_loop e (stmt (fst psw)) ResultSet_ctor (snd psw)"

text \<open>
  The move operations touch two objects that may be the same one, so they work on a store
  of objects by address. \<^verbatim>\<open>operator=(PreparedStatement&&)\<close> on two constructed objects:
\<close>

type_synonym store = "nat \<Rightarrow> PreparedStatement"

definition move_assign :: "nat \<Rightarrow> nat \<Rightarrow> store \<times> call list \<Rightarrow> store \<times> call list" where
  "move_assign this ps sw =
     (let w1 = (case stmt (fst sw this) of
                  Some h \<Rightarrow> snd sw @ [sqlite3_finalize (Some h)]
                | None \<Rightarrow> snd sw);
          s1 = (fst sw)(this := (fst sw this)\<lparr>db := db (fst sw ps)\<rparr>);
          s2 = s1(this := (s1 this)\<lparr>rc := rc (s1 ps)\<rparr>);
          s3 = s2(this := (s2 this)\<lparr>stmt := stmt (s2 ps)\<rparr>);
          s4 = s3(this := (s3 this)\<lparr>paramCount := paramCount (s3 ps)\<rparr>);
          s5 = s4(ps := (s4 ps)\<lparr>db := None\<rparr>);
          s6 = s5(ps := (s5 ps)\<lparr>stmt := None\<rparr>)
      in (s6, w1))"

text \<open>
  The move constructor is \<^verbatim>\<open>PreparedStatement(PreparedStatement&& ps) { *this = std::move(ps); }\<close>.
  It has no member initialisers (the other constructor has \<^verbatim>\<open>stmt(nullptr)\<close>), so the members
  of the new object are indeterminate when the body runs, and the first statement of the
  assignment, \<^verbatim>\<open>if (this->stmt)\<close>, reads one of them. A member holds a value or nothing
  determinate. The assignment onto an object whose \<^verbatim>\<open>stmt\<close> is indeterminate is undefined: the
  test reads the indeterminate pointer, and whatever non-null bits it finds there go to
  \<^verbatim>\<open>sqlite3_finalize\<close>. Onto an object whose \<^verbatim>\<open>stmt\<close> holds a value it is \<^verbatim>\<open>move_assign\<close>. The
  constructor is the first case.
\<close>

datatype 'a member = Indeterminate | Holds 'a

definition move_assign_onto ::
  "handle option member \<Rightarrow> nat \<Rightarrow> nat \<Rightarrow> store \<times> call list \<Rightarrow> (store \<times> call list) outcome" where
  "move_assign_onto m this ps sw =
     (case m of
        Indeterminate \<Rightarrow> Undefined
      | Holds h \<Rightarrow> Returns (move_assign this ps ((fst sw)(this := (fst sw this)\<lparr>stmt := h\<rparr>), snd sw)))"

definition move_ctor :: "nat \<Rightarrow> nat \<Rightarrow> store \<times> call list \<Rightarrow> (store \<times> call list) outcome" where
  "move_ctor this ps sw = move_assign_onto Indeterminate this ps sw"

definition PreparedStatement_dtor :: "engine \<Rightarrow> nat \<Rightarrow> store \<times> call list \<Rightarrow> store \<times> call list" where
  "PreparedStatement_dtor e this sw =
     (case stmt (fst sw this) of
        Some h \<Rightarrow>
          ((fst sw)(this := (fst sw this)\<lparr>rc := rcode (e (snd sw @ [sqlite3_finalize (Some h)]))\<rparr>),
           snd sw @ [sqlite3_finalize (Some h)])
      | None \<Rightarrow> sw)"

text \<open>A store that holds the listed objects at the addresses 0, 1 and so on.\<close>

definition store_of :: "PreparedStatement list \<Rightarrow> store" where
  "store_of xs a = (if a < length xs then xs ! a
                    else \<lparr>db = None, stmt = None, rc = 0, paramCount = 0\<rparr>)"

section \<open>Results: ResultSet\<close>

lemma insert_columns_done:
  "\<not> i < count \<Longrightarrow> insert_columns i count vals cols m = Returns m"
  by (subst insert_columns.simps) simp

lemma insert_columns_step:
  "i < count \<Longrightarrow> 0 \<le> i \<Longrightarrow> nat i < length cols \<Longrightarrow> nat i < length vals \<Longrightarrow>
   cols ! nat i = Some c \<Longrightarrow>
   insert_columns i count vals cols m =
     insert_columns (i + 1) count vals cols
       (umap_insert c (case vals ! nat i of Some v \<Rightarrow> v | None \<Rightarrow> []) m)"
  by (subst insert_columns.simps) simp

lemma count_addRecord: "ResultSet_count (addRecord r rs) = ResultSet_count rs + 1"
  by (simp add: addRecord_def ResultSet_count_def)

lemma count_next: "ResultSet_count (snd (ResultSet_next rs)) = ResultSet_count rs"
  by (simp add: ResultSet_next_def ResultSet_count_def Let_def)

lemma count_addRecord_arrays:
  "addRecord_arrays count vals cols rs = Returns rs' \<Longrightarrow>
   ResultSet_count rs' = ResultSet_count rs + (if count \<noteq> 0 then 1 else 0)"
  by (cases "insert_columns 0 count vals cols Map.empty")
     (auto simp: addRecord_arrays_def count_addRecord split: if_splits)

lemma run_op_Throws: "foldl run_op (Throws x) ops = Throws x"
  by (induction ops) simp_all

lemma run_op_Undefined: "foldl run_op Undefined ops = Undefined"
  by (induction ops) simp_all

lemma count_run_op:
  "foldl run_op (Returns rs0) ops = Returns rs \<Longrightarrow>
   ResultSet_count rs = ResultSet_count rs0 + additions ops"
proof (induction ops arbitrary: rs0)
  case Nil
  then show ?case by simp
next
  case (Cons x ops)
  show ?case
  proof (cases "run_op (Returns rs0) x")
    case (Returns rs1)
    with Cons.prems have "foldl run_op (Returns rs1) ops = Returns rs" by simp
    then have step: "ResultSet_count rs = ResultSet_count rs1 + additions ops"
      by (rule Cons.IH)
    from Returns have "ResultSet_count rs1 + additions ops = ResultSet_count rs0 + additions (x # ops)"
      by (cases x) (auto simp: count_addRecord count_next dest: count_addRecord_arrays)
    with step show ?thesis by simp
  next
    case (Throws e)
    with Cons.prems show ?thesis by (simp add: run_op_Throws)
  next
    case Undefined
    with Cons.prems show ?thesis by (simp add: run_op_Undefined)
  qed
qed

text \<open>
  Claim C5. Whatever calls of the two \<^verbatim>\<open>addRecord\<close> overloads and of \<^verbatim>\<open>next\<close> are made on a new
  \<^verbatim>\<open>ResultSet\<close>, in whatever order, \<^verbatim>\<open>count()\<close> is afterwards the number of additions: the calls
  of \<^verbatim>\<open>addRecord(record)\<close> and the calls of \<^verbatim>\<open>addRecord(count, row, cols)\<close> with a count other
  than zero. On every \<^verbatim>\<open>ResultSet\<close>, wherever its iterator stands, one addition raises the count
  by one and leaves the iterator at \<^verbatim>\<open>begin()\<close>, on the first row stored (the object then
  converts to true).
\<close>

theorem addRecord_counts_and_rewinds:
  "(foldl run_op (Returns ResultSet_ctor) ops = Returns rs1 \<longrightarrow> ResultSet_count rs1 = additions ops) \<and>
   ResultSet_count (addRecord r rs) = ResultSet_count rs + 1 \<and>
   iterator (addRecord r rs) = 0 \<and>
   operator_bool (addRecord r rs) \<and>
   container (addRecord r rs) ! iterator (addRecord r rs) = hd (container rs @ [r]) \<and>
   (count \<noteq> 0 \<and> addRecord_arrays count vals cols rs = Returns rs' \<longrightarrow>
      ResultSet_count rs' = ResultSet_count rs + 1 \<and> iterator rs' = 0 \<and> operator_bool rs' \<and>
      container rs' ! iterator rs' = hd (container rs'))"
proof -
  have a: "foldl run_op (Returns ResultSet_ctor) ops = Returns rs1 \<longrightarrow> ResultSet_count rs1 = additions ops"
    using count_run_op [of ResultSet_ctor ops rs1]
    by (simp add: ResultSet_count_def ResultSet_ctor_def)
  have b: "container (addRecord r rs) ! iterator (addRecord r rs) = hd (container rs @ [r])"
    by (simp add: addRecord_def hd_conv_nth)
  have c: "count \<noteq> 0 \<and> addRecord_arrays count vals cols rs = Returns rs' \<longrightarrow>
      ResultSet_count rs' = ResultSet_count rs + 1 \<and> iterator rs' = 0 \<and> operator_bool rs' \<and>
      container rs' ! iterator rs' = hd (container rs')"
    by (cases "insert_columns 0 count vals cols Map.empty")
      (auto simp: addRecord_arrays_def addRecord_def ResultSet_count_def operator_bool_def hd_conv_nth)
  have d: "iterator (addRecord r rs) = 0"
    by (simp add: addRecord_def)
  have f: "operator_bool (addRecord r rs)"
    by (simp add: addRecord_def operator_bool_def)
  show ?thesis
    by (intro conjI) (rule a count_addRecord d f b c)+
qed

theorem addRecord_counts_and_rewinds_witness:
  "foldl run_op (Returns ResultSet_ctor)
       [op_addRecord (map_of [(''a'', ''1'')]), op_next,
        op_addRecord_arrays 1 [Some ''2''] [Some ''a''], op_addRecord_arrays 0 [] []]
     = Returns \<lparr>container = [map_of [(''a'', ''1'')], map_of [(''a'', ''2'')]], iterator = 0\<rparr> \<and>
   ResultSet_count \<lparr>container = [map_of [(''a'', ''1'')], map_of [(''a'', ''2'')]], iterator = 0\<rparr> = 2 \<and>
   iterator (snd (ResultSet_next (addRecord (map_of [(''a'', ''1'')]) ResultSet_ctor))) = 1 \<and>
   addRecord_arrays 1 [Some ''2''] [Some ''a'']
       (snd (ResultSet_next (addRecord (map_of [(''a'', ''1'')]) ResultSet_ctor)))
     = Returns \<lparr>container = [map_of [(''a'', ''1'')], map_of [(''a'', ''2'')]], iterator = 0\<rparr>"
proof -
  let ?rs = "snd (ResultSet_next (addRecord (map_of [(''a'', ''1'')]) ResultSet_ctor))"
  let ?rs2 = "\<lparr>container = [map_of [(''a'', ''1'')], map_of [(''a'', ''2'')]], iterator = 0\<rparr>"
  let ?ops = "[op_addRecord (map_of [(''a'', ''1'')]), op_next,
        op_addRecord_arrays 1 [Some ''2''] [Some ''a''], op_addRecord_arrays 0 [] []]"
  have nx: "iterator ?rs = 1"
    by (simp add: ResultSet_next_def addRecord_def ResultSet_ctor_def Let_def)
  have arr: "addRecord_arrays 1 [Some ''2''] [Some ''a''] ?rs = Returns ?rs2"
    by (simp add: addRecord_arrays_def umap_insert_def insert_columns_step insert_columns_done
          ResultSet_next_def addRecord_def ResultSet_ctor_def Let_def)
  have run: "foldl run_op (Returns ResultSet_ctor) ?ops = Returns ?rs2"
    using arr by (simp add: addRecord_arrays_def)
  note t = addRecord_counts_and_rewinds [where ops = ?ops and ?rs1.0 = ?rs2 and count = 1
      and vals = "[Some ''2'']" and cols = "[Some ''a'']" and rs = ?rs and rs' = ?rs2]
  have cnt: "ResultSet_count ?rs2 = 2"
    using t run by simp
  show ?thesis using nx arr run cnt by simp
qed

text \<open>
  Claim C8. With the iterator on a row, \<^verbatim>\<open>get<T>\<close> throws exactly when the current row has
  no column of that name; what it throws is then \<^verbatim>\<open>ColumnNotFound\<close> for that name, which a
  handler for \<^verbatim>\<open>ColumnNotFound\<close> catches while it lets a plain \<^verbatim>\<open>SQLite3Error\<close> pass. When the
  column is there, \<^verbatim>\<open>get<T>\<close> returns the conversion of the text stored under that name in the
  row the iterator stands on.
\<close>

theorem get_ColumnNotFound_iff:
  assumes "iterator rs < length (container rs)"
  shows "((\<exists>x. get conv rs name = Throws x) = ((container rs ! iterator rs) name = None)) \<and>
         ((container rs ! iterator rs) name = None \<longrightarrow> get conv rs name = Throws (ColumnNotFound name)) \<and>
         (\<forall>v. (container rs ! iterator rs) name = Some v \<longrightarrow> get conv rs name = Returns (conv v)) \<and>
         caught_by catch_ColumnNotFound (ColumnNotFound name) \<and>
         \<not> caught_by catch_ColumnNotFound (SQLite3Error m) \<and>
         caught_by catch_SQLite3Error (ColumnNotFound name)"
  using assms by (cases "(container rs ! iterator rs) name") (simp_all add: get_def)

theorem get_ColumnNotFound_iff_witness:
  "get extract_int (addRecord (map_of [(''id'', ''42'')]) ResultSet_ctor) ''name''
     = Throws (ColumnNotFound ''name'') \<and>
   get extract_int (addRecord (map_of [(''id'', ''42'')]) ResultSet_ctor) ''id''
     = Returns (extract_int ''42'')"
proof -
  have v: "iterator (addRecord (map_of [(''id'', ''42'')]) ResultSet_ctor)
             < length (container (addRecord (map_of [(''id'', ''42'')]) ResultSet_ctor))"
    by (simp add: addRecord_def ResultSet_ctor_def)
  have a: "get extract_int (addRecord (map_of [(''id'', ''42'')]) ResultSet_ctor) ''name''
     = Throws (ColumnNotFound ''name'')"
    using get_ColumnNotFound_iff [OF v, where name = "''name''" and conv = extract_int,
        THEN conjunct2, THEN conjunct1]
    by (simp add: addRecord_def ResultSet_ctor_def)
  have b: "get extract_int (addRecord (map_of [(''id'', ''42'')]) ResultSet_ctor) ''id''
     = Returns (extract_int ''42'')"
    using get_ColumnNotFound_iff [OF v, where name = "''id''" and conv = extract_int,
        THEN conjunct2, THEN conjunct2, THEN conjunct1, THEN spec, of "''42''"]
    by (simp add: addRecord_def ResultSet_ctor_def)
  show ?thesis using a b by simp
qed

subsection \<open>The conversions of \<^verbatim>\<open>get\<close>\<close>








































section \<open>Results: the connection\<close>

text \<open>
  Claim C1, as the code has it. A null \<^verbatim>\<open>sql\<close> makes \<^verbatim>\<open>execute\<close> throw "No sql parameter" with
  the connection and the history of engine calls untouched. Every other \<^verbatim>\<open>sql\<close>, the empty
  string included, is handed to \<^verbatim>\<open>sqlite3_exec\<close> with the row-discarding callback, and
  \<^verbatim>\<open>execute\<close> returns exactly when the engine answers \<^verbatim>\<open>SQLITE_OK\<close>; otherwise it throws the
  error built from the message pointer the engine left.
\<close>

theorem execute_null_guard_only:
  "SQLite3_execute e None (c, w) = (Throws (SQLite3Error ''No sql parameter''), c, w) \<and>
   snd (snd (SQLite3_execute e (Some s) (c, w))) = w @ [sqlite3_exec (SQLite3.db c) s discard_rows] \<and>
   ((fst (SQLite3_execute e (Some s) (c, w)) = Returns ())
      = (rcode (e (w @ [sqlite3_exec (SQLite3.db c) s discard_rows])) = SQLITE_OK)) \<and>
   fst (SQLite3_execute e (Some s) (c, w)) =
     (if rcode (e (w @ [sqlite3_exec (SQLite3.db c) s discard_rows])) = SQLITE_OK then Returns ()
      else throw_SQLite3Error (out_text (e (w @ [sqlite3_exec (SQLite3.db c) s discard_rows]))))"
  by (simp add: SQLite3_execute_def Let_def throw_SQLite3Error_def split: option.splits)

text \<open>
  The claim as it was stated fails at the empty string: on an engine that answers
  \<^verbatim>\<open>SQLITE_OK\<close>, \<^verbatim>\<open>execute("")\<close> calls \<^verbatim>\<open>sqlite3_exec\<close> and returns.
\<close>

theorem execute_empty_sql_counterexample:
  "SQLite3_execute (engine_const (reply 0 None None)) (Some []) (opened 1, [])
     = (Returns (), opened 1, [sqlite3_exec (Some 1) [] discard_rows])"
  by (simp add: SQLite3_execute_def engine_const_def reply_def opened_def SQLITE_OK_def)

text \<open>
  Claim C2 does not hold of the constructor. First input: the open fails with 14
  (\<^verbatim>\<open>SQLITE_CANTOPEN\<close>) and no script is supplied; \<^verbatim>\<open>errMsg\<close> is still the null pointer when
  the message of the error is concatenated, so what happens is not defined, where the claim
  has a thrown error. Second input: the open fails in the same way, a script is supplied and
  the engine answers \<^verbatim>\<open>SQLITE_OK\<close> to it; the status of the open has been overwritten and the
  constructor returns an object whose \<^verbatim>\<open>isOpened\<close> is false.
\<close>

theorem SQLite3_ctor_failing_inputs:
  "SQLite3_ctor (engine_const (reply 14 (Some 1) None)) (Some ''/no/such/dir/x.db'') None []
     = (Undefined, [sqlite3_open (Some ''/no/such/dir/x.db'')]) \<and>
   SQLite3_ctor (engine_script [reply 14 (Some 1) None, reply 0 (Some 1) None] (reply 0 None None))
      (Some ''/no/such/dir/x.db'') (Some ''CREATE TABLE t(x)'') []
     = (Returns \<lparr>SQLite3.db = Some 1, errMsg = None, result = 0, isOpened = False\<rparr>,
        [sqlite3_open (Some ''/no/such/dir/x.db''),
         sqlite3_exec (Some 1) ''CREATE TABLE t(x)'' discard_rows])"
  by (simp add: SQLite3_ctor_def engine_script_def engine_const_def reply_def SQLITE_OK_def)

text \<open>
  Where the script fails and the engine leaves a message, the constructor throws, with the
  result code and the message in the text of the error.
\<close>

lemma SQLite3_ctor_script_error:
  "SQLite3_ctor (engine_script [reply 0 (Some 1) None, reply 1 None (Some ''near x: syntax error'')]
                   (reply 0 None None))
      (Some ''x.db'') (Some ''x'') []
     = (Throws (SQLite3Error (''Database can'' @ [CHR 0x27] @ ''t be initialized: '' @ [CHR 0x0A]
                  @ ''Result: 1'' @ [CHR 0x09] @ ''near x: syntax error'')),
        [sqlite3_open (Some ''x.db''), sqlite3_exec (Some 1) ''x'' discard_rows])"
  by (simp add: SQLite3_ctor_def engine_script_def reply_def SQLITE_OK_def to_string_def
        string_of_nat.simps dig_def)

section \<open>Results: PreparedStatement\<close>

text \<open>
  Claim C3. A null \<^verbatim>\<open>const char*\<close> is bound with \<^verbatim>\<open>sqlite3_bind_null\<close>. A non-null one is
  bound with \<^verbatim>\<open>sqlite3_bind_text\<close> and length \<open>-1\<close>, a \<^verbatim>\<open>std::string\<close> with
  \<^verbatim>\<open>sqlite3_bind_text\<close> and its own length, which is 0 for the empty string. The call made for
  a null pointer is never the call made for an empty text, and \<^verbatim>\<open>rc\<close> is the engine's answer
  to the call.
\<close>

theorem prepareParam_null_versus_text:
  "snd (prepareParam e (P_cstr None) i (ps, w)) = w @ [sqlite3_bind_null (stmt ps) i] \<and>
   snd (prepareParam e (P_cstr (Some s)) i (ps, w)) = w @ [sqlite3_bind_text (stmt ps) i s (- 1)] \<and>
   snd (prepareParam e (P_string s) i (ps, w)) = w @ [sqlite3_bind_text (stmt ps) i s (int (length s))] \<and>
   snd (prepareParam e (P_string []) i (ps, w)) = w @ [sqlite3_bind_text (stmt ps) i [] 0] \<and>
   snd (prepareParam e (P_cstr None) i (ps, w)) \<noteq> snd (prepareParam e (P_string []) i (ps, w)) \<and>
   snd (prepareParam e (P_cstr None) i (ps, w)) \<noteq> snd (prepareParam e (P_cstr (Some [])) i (ps, w)) \<and>
   rc (fst (prepareParam e p i (ps, w))) = rcode (e (snd (prepareParam e p i (ps, w))))"
  by (simp add: prepareParam_def Let_def)

subsection \<open>\<^verbatim>\<open>bind\<close>\<close>

lemma prepareParam_pair:
  "prepareParam e p i (ps, w) =
     (ps\<lparr>rc := rcode (e (w @ [bind_call (stmt ps) p i]))\<rparr>, w @ [bind_call (stmt ps) p i])"
  by (simp add: prepareParam_def Let_def)

lemma prepare_all_trace:
  "prepare_all e args i (ps, w) =
     (ps\<lparr>rc := (if args = [] then rc ps else rcode (e (w @ bind_calls (stmt ps) args i)))\<rparr>,
      w @ bind_calls (stmt ps) args i)"
proof (induction args arbitrary: i ps w)
  case Nil
  then show ?case by simp
next
  case (Cons p args)
  have "prepare_all e (p # args) i (ps, w) =
          prepare_all e args (i + 1)
            (ps\<lparr>rc := rcode (e (w @ [bind_call (stmt ps) p (i + 1)]))\<rparr>,
             w @ [bind_call (stmt ps) p (i + 1)])"
    by (simp add: prepareParam_pair)
  also have "\<dots> =
      (ps\<lparr>rc := rcode (e (w @ bind_calls (stmt ps) (p # args) i))\<rparr>,
       w @ bind_calls (stmt ps) (p # args) i)"
    by (subst Cons.IH) simp
  finally show ?case by simp
qed

lemma length_bind_calls: "length (bind_calls st args i) = length args"
  by (induction args arbitrary: i) simp_all

lemma bind_wrong_count:
  "int (length args) \<noteq> paramCount ps \<Longrightarrow>
   bind e args (ps, w) =
     (Throws (SQLite3Error ''Count of arguments does not equal count of questionmarks''), ps, w)"
  by (simp add: bind_def)

lemma bind_right_count:
  "int (length args) = paramCount ps \<Longrightarrow>
   bind e args (ps, w) =
     (if (if args = [] then rc ps else rcode (e (w @ bind_calls (stmt ps) args 0))) \<noteq> SQLITE_OK
      then (throw_SQLite3Error
              (out_text (e (w @ bind_calls (stmt ps) args 0 @ [sqlite3_errmsg (db ps)]))),
            ps\<lparr>rc := (if args = [] then rc ps else rcode (e (w @ bind_calls (stmt ps) args 0)))\<rparr>,
            w @ bind_calls (stmt ps) args 0 @ [sqlite3_errmsg (db ps)])
      else (Returns (),
            ps\<lparr>rc := (if args = [] then rc ps else rcode (e (w @ bind_calls (stmt ps) args 0)))\<rparr>,
            w @ bind_calls (stmt ps) args 0))"
  by (simp add: bind_def prepare_all_trace)

lemma throw_SQLite3Error_not_Returns: "throw_SQLite3Error p \<noteq> Returns x"
  by (cases p) (simp_all add: throw_SQLite3Error_def)

lemma bind_keeps_paramCount: "paramCount (fst (snd (bind e args (ps, w)))) = paramCount ps"
  by (simp add: bind_def prepare_all_trace)

lemma ctor_paramCount:
  assumes "PreparedStatement_ctor e dbh query args0 w0 = (Returns ps0, w1)"
  shows "paramCount ps0 = int (count_list query (CHR ''?''))"
proof (cases "rcode (e (w0 @ [sqlite3_prepare_v3 dbh query (int (length query))])) = SQLITE_OK")
  case False
  with assms show ?thesis
    by (simp add: PreparedStatement_ctor_def Let_def throw_SQLite3Error_not_Returns)
next
  case ok: True
  show ?thesis
  proof (cases "args0 = []")
    case True
    with assms ok show ?thesis
      by (auto simp: PreparedStatement_ctor_def Let_def)
  next
    case False
    let ?ps1 = "\<lparr>db = dbh, stmt = out_handle (e (w0 @ [sqlite3_prepare_v3 dbh query (int (length query))])),
                  rc = rcode (e (w0 @ [sqlite3_prepare_v3 dbh query (int (length query))])),
                  paramCount = int (count_list query (CHR ''?''))\<rparr>"
    let ?w1 = "w0 @ [sqlite3_prepare_v3 dbh query (int (length query))]"
    have pc: "paramCount (fst (snd (bind e args0 (?ps1, ?w1)))) = int (count_list query (CHR ''?''))"
      by (simp add: bind_keeps_paramCount)
    obtain r ps2 w2 where b: "bind e args0 (?ps1, ?w1) = (r, ps2, w2)"
      by (cases "bind e args0 (?ps1, ?w1)") auto
    from assms ok False b have "ps0 = ps2"
      by (cases r) (simp_all add: PreparedStatement_ctor_def Let_def)
    with pc b show ?thesis by simp
  qed
qed

lemma step_loop_stop:
  "rcode (e (w @ [sqlite3_step (stmt ps)])) \<noteq> SQLITE_ROW \<Longrightarrow>
   step_loop e ps w =
     Some (ps\<lparr>rc := rcode (e (w @ [sqlite3_step (stmt ps)]))\<rparr>, w @ [sqlite3_step (stmt ps)])"
  by (subst step_loop.simps) simp

lemma step_loop_row:
  "rcode (e (w @ [sqlite3_step (stmt ps)])) = SQLITE_ROW \<Longrightarrow>
   step_loop e ps w =
     step_loop e (ps\<lparr>rc := rcode (e (w @ [sqlite3_step (stmt ps)]))\<rparr>) (w @ [sqlite3_step (stmt ps)])"
  by (subst step_loop.simps) simp

text \<open>
  Claim C4. \<^verbatim>\<open>paramCount\<close> is the number of \<^verbatim>\<open>'?'\<close> characters of the query text, counted by
  the constructor. On a statement with that count, \<^verbatim>\<open>bind\<close> with any other number of values
  throws the count error and leaves the statement and the history of engine calls as they
  were; with exactly that number it goes on to bind every value, one engine call each, and
  its outcome is the one of the status test that follows the bindings. (The counts are
  taken as they are: a query of \<open>2^31\<close> bytes or more is beyond what \<^verbatim>\<open>int paramCount\<close> and the
  \<^verbatim>\<open>int\<close> length argument of \<^verbatim>\<open>sqlite3_prepare_v3\<close> hold.)
\<close>

theorem bind_parameter_count:
  assumes "PreparedStatement_ctor e0 dbh query args0 w0 = (Returns ps0, w1)"
      and "paramCount ps = paramCount ps0"
  shows "paramCount ps0 = int (count_list query (CHR ''?'')) \<and>
         (length args \<noteq> count_list query (CHR ''?'') \<longrightarrow>
            bind e args (ps, w) =
              (Throws (SQLite3Error ''Count of arguments does not equal count of questionmarks''),
               ps, w)) \<and>
         (length args = count_list query (CHR ''?'') \<longrightarrow>
            bind e args (ps, w) =
              (case prepare_all e args 0 (ps, w) of
                 (ps', w') \<Rightarrow>
                   if rc ps' \<noteq> SQLITE_OK then
                     (throw_SQLite3Error (out_text (e (w' @ [sqlite3_errmsg (db ps')]))),
                      ps', w' @ [sqlite3_errmsg (db ps')])
                   else (Returns (), ps', w')) \<and>
            snd (prepare_all e args 0 (ps, w)) = w @ bind_calls (stmt ps) args 0 \<and>
            length (bind_calls (stmt ps) args 0) = count_list query (CHR ''?''))"
proof -
  have pc: "paramCount ps = int (count_list query (CHR ''?''))"
    using assms ctor_paramCount by simp
  then show ?thesis
    using assms(2) by (simp add: bind_def prepare_all_trace length_bind_calls)
qed

theorem bind_parameter_count_witness:
  "bind (engine_const (reply 0 (Some 7) None)) [P_integral 1]
      (\<lparr>db = Some 1, stmt = Some 7, rc = 0, paramCount = 2\<rparr>, [])
     = (Throws (SQLite3Error ''Count of arguments does not equal count of questionmarks''),
        \<lparr>db = Some 1, stmt = Some 7, rc = 0, paramCount = 2\<rparr>, []) \<and>
   bind (engine_const (reply 0 (Some 7) None)) [P_integral 1, P_cstr None]
      (\<lparr>db = Some 1, stmt = Some 7, rc = 0, paramCount = 2\<rparr>, [])
     = (Returns (), \<lparr>db = Some 1, stmt = Some 7, rc = 0, paramCount = 2\<rparr>,
        [sqlite3_bind_int (Some 7) 1 1, sqlite3_bind_null (Some 7) 2])"
proof -
  have c: "PreparedStatement_ctor (engine_const (reply 0 (Some 7) None)) (Some 1)
             ''INSERT INTO t VALUES(?,?)'' [] []
           = (Returns \<lparr>db = Some 1, stmt = Some 7, rc = 0, paramCount = 2\<rparr>,
              [sqlite3_prepare_v3 (Some 1) ''INSERT INTO t VALUES(?,?)'' 25])"
    by (simp add: PreparedStatement_ctor_def engine_const_def reply_def SQLITE_OK_def)
  note t = bind_parameter_count [OF c refl, where e = "engine_const (reply 0 (Some 7) None)"
             and w = "[]"]
  have a: "bind (engine_const (reply 0 (Some 7) None)) [P_integral 1]
      (\<lparr>db = Some 1, stmt = Some 7, rc = 0, paramCount = 2\<rparr>, [])
     = (Throws (SQLite3Error ''Count of arguments does not equal count of questionmarks''),
        \<lparr>db = Some 1, stmt = Some 7, rc = 0, paramCount = 2\<rparr>, [])"
    using t [where args = "[P_integral 1]"] by simp
  have b: "bind (engine_const (reply 0 (Some 7) None)) [P_integral 1, P_cstr None]
      (\<lparr>db = Some 1, stmt = Some 7, rc = 0, paramCount = 2\<rparr>, [])
     = (Returns (), \<lparr>db = Some 1, stmt = Some 7, rc = 0, paramCount = 2\<rparr>,
        [sqlite3_bind_int (Some 7) 1 1, sqlite3_bind_null (Some 7) 2])"
    using t [where args = "[P_integral 1, P_cstr None]"]
    by (simp add: prepareParam_pair engine_const_def reply_def SQLITE_OK_def)
  show ?thesis using a b by simp
qed

lemma last_bind_calls:
  "args \<noteq> [] \<Longrightarrow>
   last (bind_calls st args i) = bind_call st (last args) (i + int (length args))"
proof (induction args arbitrary: i)
  case Nil
  then show ?case by simp
next
  case (Cons p args)
  show ?case
  proof (cases "args = []")
    case True
    then show ?thesis by simp
  next
    case False
    then have "bind_calls st args (i + 1) \<noteq> []"
      by (cases args) simp_all
    with False Cons.IH [of "i + 1"] show ?thesis
      by (simp add: algebra_simps)
  qed
qed

text \<open>
  With the right number of values, at least one, every value is bound before any status is
  looked at, and the only status ever tested is the engine's answer to the last binding,
  the one of the last value at the last index: \<^verbatim>\<open>bind\<close> returns exactly when that one is
  \<^verbatim>\<open>SQLITE_OK\<close> and throws the error of \<^verbatim>\<open>sqlite3_errmsg\<close> otherwise, so a failure of an earlier
  binding that a later one follows with success is lost.
\<close>

lemma bind_checks_last_status:
  assumes "int (length args) = paramCount ps" and "args \<noteq> []"
  shows "((fst (bind e args (ps, w)) = Returns ()) =
            (rcode (e (w @ bind_calls (stmt ps) args 0)) = SQLITE_OK)) \<and>
         fst (bind e args (ps, w)) =
           (if rcode (e (w @ bind_calls (stmt ps) args 0)) = SQLITE_OK
            then Returns ()
            else throw_SQLite3Error
                   (out_text (e (w @ bind_calls (stmt ps) args 0 @ [sqlite3_errmsg (db ps)])))) \<and>
         snd (snd (bind e args (ps, w))) =
           w @ bind_calls (stmt ps) args 0 @
             (if rcode (e (w @ bind_calls (stmt ps) args 0)) = SQLITE_OK
              then [] else [sqlite3_errmsg (db ps)]) \<and>
         length (bind_calls (stmt ps) args 0) = length args \<and>
         last (w @ bind_calls (stmt ps) args 0) =
           bind_call (stmt ps) (last args) (int (length args))"
proof -
  have ne: "bind_calls (stmt ps) args 0 \<noteq> []"
    using assms(2) by (cases args) simp_all
  have l: "last (w @ bind_calls (stmt ps) args 0) =
             bind_call (stmt ps) (last args) (int (length args))"
    using ne last_bind_calls [OF assms(2), of "stmt ps" 0] by simp
  show ?thesis
    using assms l by (simp add: bind_right_count throw_SQLite3Error_not_Returns length_bind_calls)
qed

lemma bind_checks_last_status_example:
  "fst (bind (engine_script [reply 25 None None, reply 0 None None] (reply 0 None None))
          [P_integral 1, P_integral 2]
          (\<lparr>db = Some 1, stmt = Some 7, rc = 0, paramCount = 2\<rparr>, [])) = Returns () \<and>
   fst (bind (engine_script [reply 0 None None, reply 25 None None,
                             reply 0 None (Some ''column index out of range'')] (reply 0 None None))
          [P_integral 1, P_integral 2]
          (\<lparr>db = Some 1, stmt = Some 7, rc = 0, paramCount = 2\<rparr>, []))
     = Throws (SQLite3Error ''column index out of range'')"
proof -
  have n: "int (length [P_integral 1, P_integral 2])
             = paramCount \<lparr>db = Some 1, stmt = Some 7, rc = 0, paramCount = 2\<rparr>"
    by simp
  have ne: "[P_integral 1, P_integral 2] \<noteq> []"
    by simp
  have a: "fst (bind (engine_script [reply 25 None None, reply 0 None None] (reply 0 None None))
          [P_integral 1, P_integral 2]
          (\<lparr>db = Some 1, stmt = Some 7, rc = 0, paramCount = 2\<rparr>, [])) = Returns ()"
    using bind_checks_last_status [OF n ne,
        where e = "engine_script [reply 25 None None, reply 0 None None] (reply 0 None None)"
        and w = "[]", THEN conjunct1]
    by (simp add: engine_script_def reply_def SQLITE_OK_def)
  have b: "fst (bind (engine_script [reply 0 None None, reply 25 None None,
                             reply 0 None (Some ''column index out of range'')] (reply 0 None None))
          [P_integral 1, P_integral 2]
          (\<lparr>db = Some 1, stmt = Some 7, rc = 0, paramCount = 2\<rparr>, []))
     = Throws (SQLite3Error ''column index out of range'')"
    using bind_checks_last_status [OF n ne,
        where e = "engine_script [reply 0 None None, reply 25 None None,
                             reply 0 None (Some ''column index out of range'')] (reply 0 None None)"
        and w = "[]", THEN conjunct2, THEN conjunct1]
    by (simp add: engine_script_def reply_def SQLITE_OK_def throw_SQLite3Error_def)
  show ?thesis using a b by simp
qed

text \<open>
  Claim C6 does not hold of \<^verbatim>\<open>bind\<close> when the statement has no placeholder. The statement for
  \<^verbatim>\<open>SELECT 1\<close> is prepared and \<^verbatim>\<open>execute()\<close> runs it: the first step reports a row, the second
  \<^verbatim>\<open>SQLITE_DONE\<close>, which is success for \<^verbatim>\<open>execute\<close> and stays in the member \<^verbatim>\<open>rc\<close>. Then \<^verbatim>\<open>bind()\<close>
  is called with no value, the right number. No binding operation is performed, so none
  has a status that is not success; all the same \<^verbatim>\<open>bind\<close> finds \<^verbatim>\<open>rc\<close> different from \<^verbatim>\<open>SQLITE_OK\<close>
  and throws the message of \<^verbatim>\<open>sqlite3_errmsg\<close>, which is "not an error".
\<close>

theorem bind_no_values_failing_input:
  "PreparedStatement_ctor
      (engine_script [reply 0 (Some 7) None, reply 100 None None, reply 101 None None,
                      reply 0 None (Some ''not an error'')]
         (reply 0 None None))
      (Some 1) ''SELECT 1'' [] []
     = (Returns \<lparr>db = Some 1, stmt = Some 7, rc = 0, paramCount = 0\<rparr>,
        [sqlite3_prepare_v3 (Some 1) ''SELECT 1'' 8]) \<and>
   PreparedStatement_execute
      (engine_script [reply 0 (Some 7) None, reply 100 None None, reply 101 None None,
                      reply 0 None (Some ''not an error'')]
         (reply 0 None None))
      (\<lparr>db = Some 1, stmt = Some 7, rc = 0, paramCount = 0\<rparr>,
       [sqlite3_prepare_v3 (Some 1) ''SELECT 1'' 8])
     = Some (Returns (), \<lparr>db = Some 1, stmt = Some 7, rc = 101, paramCount = 0\<rparr>,
             [sqlite3_prepare_v3 (Some 1) ''SELECT 1'' 8, sqlite3_step (Some 7),
              sqlite3_step (Some 7)]) \<and>
   bind_calls (Some 7) [] 0 = [] \<and>
   bind
      (engine_script [reply 0 (Some 7) None, reply 100 None None, reply 101 None None,
                      reply 0 None (Some ''not an error'')]
         (reply 0 None None))
      []
      (\<lparr>db = Some 1, stmt = Some 7, rc = 101, paramCount = 0\<rparr>,
       [sqlite3_prepare_v3 (Some 1) ''SELECT 1'' 8, sqlite3_step (Some 7), sqlite3_step (Some 7)])
     = (Throws (SQLite3Error ''not an error''),
        \<lparr>db = Some 1, stmt = Some 7, rc = 101, paramCount = 0\<rparr>,
        [sqlite3_prepare_v3 (Some 1) ''SELECT 1'' 8, sqlite3_step (Some 7), sqlite3_step (Some 7),
         sqlite3_errmsg (Some 1)])"
proof -
  let ?e = "engine_script [reply 0 (Some 7) None, reply 100 None None, reply 101 None None,
                      reply 0 None (Some ''not an error'')]
         (reply 0 None None)"
  let ?w = "[sqlite3_prepare_v3 (Some 1) ''SELECT 1'' 8]"
  have c: "PreparedStatement_ctor ?e (Some 1) ''SELECT 1'' [] []
     = (Returns \<lparr>db = Some 1, stmt = Some 7, rc = 0, paramCount = 0\<rparr>, ?w)"
    by (simp add: PreparedStatement_ctor_def engine_script_def reply_def SQLITE_OK_def)
  have r1: "rcode (?e (?w @ [sqlite3_step (Some 7)])) = SQLITE_ROW"
    by (simp add: engine_script_def reply_def SQLITE_ROW_def)
  have r2: "rcode (?e ((?w @ [sqlite3_step (Some 7)]) @ [sqlite3_step (Some 7)])) \<noteq> SQLITE_ROW"
    by (simp add: engine_script_def reply_def SQLITE_ROW_def)
  have v2: "rcode (?e ((?w @ [sqlite3_step (Some 7)]) @ [sqlite3_step (Some 7)])) = 101"
    by (simp add: engine_script_def reply_def)
  have "step_loop ?e \<lparr>db = Some 1, stmt = Some 7, rc = 0, paramCount = 0\<rparr> ?w
          = step_loop ?e \<lparr>db = Some 1, stmt = Some 7, rc = SQLITE_ROW, paramCount = 0\<rparr>
              (?w @ [sqlite3_step (Some 7)])"
    using step_loop_row [where e = ?e and w = ?w
        and ps = "\<lparr>db = Some 1, stmt = Some 7, rc = 0, paramCount = 0\<rparr>"] r1
    by simp
  also have "\<dots> = Some (\<lparr>db = Some 1, stmt = Some 7, rc = 101, paramCount = 0\<rparr>,
                        (?w @ [sqlite3_step (Some 7)]) @ [sqlite3_step (Some 7)])"
    using step_loop_stop [where e = ?e and w = "?w @ [sqlite3_step (Some 7)]"
        and ps = "\<lparr>db = Some 1, stmt = Some 7, rc = SQLITE_ROW, paramCount = 0\<rparr>"] r2 v2
    by simp
  finally have l: "step_loop ?e \<lparr>db = Some 1, stmt = Some 7, rc = 0, paramCount = 0\<rparr> ?w
          = Some (\<lparr>db = Some 1, stmt = Some 7, rc = 101, paramCount = 0\<rparr>,
                  [sqlite3_prepare_v3 (Some 1) ''SELECT 1'' 8, sqlite3_step (Some 7),
                   sqlite3_step (Some 7)])"
    by simp
  have x: "PreparedStatement_execute ?e (\<lparr>db = Some 1, stmt = Some 7, rc = 0, paramCount = 0\<rparr>, ?w)
     = Some (Returns (), \<lparr>db = Some 1, stmt = Some 7, rc = 101, paramCount = 0\<rparr>,
             [sqlite3_prepare_v3 (Some 1) ''SELECT 1'' 8, sqlite3_step (Some 7),
              sqlite3_step (Some 7)])"
    unfolding PreparedStatement_execute_def fst_conv snd_conv l
    by (simp add: SQLITE_DONE_def)
  have b: "bind ?e []
      (\<lparr>db = Some 1, stmt = Some 7, rc = 101, paramCount = 0\<rparr>,
       [sqlite3_prepare_v3 (Some 1) ''SELECT 1'' 8, sqlite3_step (Some 7), sqlite3_step (Some 7)])
     = (Throws (SQLite3Error ''not an error''),
        \<lparr>db = Some 1, stmt = Some 7, rc = 101, paramCount = 0\<rparr>,
        [sqlite3_prepare_v3 (Some 1) ''SELECT 1'' 8, sqlite3_step (Some 7), sqlite3_step (Some 7),
         sqlite3_errmsg (Some 1)])"
    by (simp add: bind_def engine_script_def reply_def SQLITE_OK_def throw_SQLite3Error_def)
  have n: "bind_calls (Some 7) [] 0 = []"
    by simp
  show ?thesis
    by (intro conjI) (rule c x n b)+
qed

text \<open>
  With no value there is no binding, and the status tested is the one that the operation
  before left in \<^verbatim>\<open>rc\<close>.
\<close>

lemma bind_without_values:
  "paramCount ps = 0 \<Longrightarrow>
   fst (bind e [] (ps, w)) =
     (if rc ps = SQLITE_OK then Returns ()
      else throw_SQLite3Error (out_text (e (w @ [sqlite3_errmsg (db ps)]))))"
  by (simp add: bind_def)

subsection \<open>The move operations\<close>

text \<open>
  After \<^verbatim>\<open>operator=(PreparedStatement&&)\<close> between two constructed objects the source holds a
  null statement handle and a null connection handle, whatever the two objects held and
  also when they are the same object; destroying the source then calls nothing and changes
  nothing, any number of times. The one engine call of the assignment is the
  \<^verbatim>\<open>sqlite3_finalize\<close> of the handle the destination held, when it held one, and a destination
  other than the source ends with the fields of the source.
\<close>

lemma move_assign_leaves_source_empty:
  "stmt (fst (move_assign this ps (s, w)) ps) = None \<and>
   db (fst (move_assign this ps (s, w)) ps) = None \<and>
   snd (move_assign this ps (s, w)) =
     w @ (case stmt (s this) of Some h \<Rightarrow> [sqlite3_finalize (Some h)] | None \<Rightarrow> []) \<and>
   PreparedStatement_dtor e ps (move_assign this ps (s, w)) = move_assign this ps (s, w) \<and>
   (this \<noteq> ps \<longrightarrow>
      fst (move_assign this ps (s, w)) this =
        \<lparr>db = db (s ps), stmt = stmt (s ps), rc = rc (s ps), paramCount = paramCount (s ps)\<rparr>)"
  by (cases "stmt (s this)")
     (simp_all add: move_assign_def PreparedStatement_dtor_def Let_def)

lemma move_assign_example:
  "move_assign 0 1
     (store_of [\<lparr>db = Some 1, stmt = Some 7, rc = 0, paramCount = 1\<rparr>,
                \<lparr>db = Some 1, stmt = Some 8, rc = 101, paramCount = 2\<rparr>], [])
   = (store_of [\<lparr>db = Some 1, stmt = Some 8, rc = 101, paramCount = 2\<rparr>,
                \<lparr>db = None, stmt = None, rc = 101, paramCount = 2\<rparr>],
      [sqlite3_finalize (Some 7)])"
proof -
  let ?s = "store_of [\<lparr>db = Some 1, stmt = Some 7, rc = 0, paramCount = 1\<rparr>,
                \<lparr>db = Some 1, stmt = Some 8, rc = 101, paramCount = 2\<rparr>]"
  have ne: "(0::nat) \<noteq> 1" by simp
  note t = move_assign_leaves_source_empty [where this = 0 and ps = 1 and s = ?s and w = "[]"]
  have w: "snd (move_assign 0 1 (?s, [])) = [sqlite3_finalize (Some 7)]"
    using t by (simp add: store_of_def)
  have d: "fst (move_assign 0 1 (?s, [])) 0 = \<lparr>db = Some 1, stmt = Some 8, rc = 101, paramCount = 2\<rparr>"
    using t ne by (simp add: store_of_def)
  have src: "fst (move_assign 0 1 (?s, [])) 1 = \<lparr>db = None, stmt = None, rc = 101, paramCount = 2\<rparr>"
    by (simp add: move_assign_def Let_def store_of_def)
  have rest: "\<And>a. 2 \<le> a \<Longrightarrow> fst (move_assign 0 1 (?s, [])) a = ?s a"
    by (simp add: move_assign_def Let_def)
  have "fst (move_assign 0 1 (?s, [])) =
          store_of [\<lparr>db = Some 1, stmt = Some 8, rc = 101, paramCount = 2\<rparr>,
                    \<lparr>db = None, stmt = None, rc = 101, paramCount = 2\<rparr>]"
  proof
    fix a :: nat
    consider "a = 0" | "a = 1" | "2 \<le> a" by linarith
    then show "fst (move_assign 0 1 (?s, [])) a =
          store_of [\<lparr>db = Some 1, stmt = Some 8, rc = 101, paramCount = 2\<rparr>,
                    \<lparr>db = None, stmt = None, rc = 101, paramCount = 2\<rparr>] a"
    proof cases
      case 1 then show ?thesis using d by (simp add: store_of_def)
    next
      case 2 then show ?thesis using src by (simp add: store_of_def)
    next
      case 3 then show ?thesis using rest [OF 3] by (simp add: store_of_def)
    qed
  qed
  with w show ?thesis by (simp add: prod_eq_iff)
qed

text \<open>
  Had the move constructor set \<^verbatim>\<open>stmt\<close> to null before its body, as the other constructor does,
  it would finalize nothing, give the new object the fields of the source and leave the
  source with null handles.
\<close>

lemma move_assign_onto_null:
  assumes "this \<noteq> ps"
  shows "\<exists>s'. move_assign_onto (Holds None) this ps (s, w) = Returns (s', w) \<and>
           s' this = \<lparr>db = db (s ps), stmt = stmt (s ps), rc = rc (s ps), paramCount = paramCount (s ps)\<rparr> \<and>
           db (s' ps) = None \<and> stmt (s' ps) = None"
  using assms by (simp add: move_assign_onto_def move_assign_def Let_def)

text \<open>
  Claim C9 does not hold of move construction. The statement \<^verbatim>\<open>a\<close>, with the connection handle
  1 and the statement handle 8, is at the address 1, and \<^verbatim>\<open>PreparedStatement b(std::move(a))\<close>
  constructs \<^verbatim>\<open>b\<close> at the address 0. The constructor initialises no member of \<^verbatim>\<open>b\<close> and runs the
  assignment, which begins by reading \<^verbatim>\<open>b.stmt\<close>: the behaviour is undefined, and so it is for
  every source, every address and every history. The source is not left with null
  handles by anything the language guarantees, and the destination owns no statement whose
  finalization would be due.
\<close>

theorem move_ctor_failing_input:
  "move_ctor 0 1
     (store_of [\<lparr>db = None, stmt = None, rc = 0, paramCount = 0\<rparr>,
                \<lparr>db = Some 1, stmt = Some 8, rc = 0, paramCount = 1\<rparr>], [])
     = Undefined \<and>
   (\<forall>this ps sw. move_ctor this ps sw = Undefined)"
  by (simp add: move_ctor_def move_assign_onto_def)

subsection \<open>\<^verbatim>\<open>executeQuery\<close>\<close>

lemma collect_columns_done:
  "\<not> colIndex < rcode (e (w @ [sqlite3_column_count st])) \<Longrightarrow>
   collect_columns e st colIndex rcd w = Some (Returns rcd, w @ [sqlite3_column_count st])"
  by (subst collect_columns.simps) simp

lemma collect_columns_step:
  "colIndex < rcode (e (w @ [sqlite3_column_count st])) \<Longrightarrow>
   out_text (e (w @ [sqlite3_column_count st, sqlite3_column_name st colIndex])) = Some n \<Longrightarrow>
   out_text (e (w @ [sqlite3_column_count st, sqlite3_column_name st colIndex,
                     sqlite3_column_text st colIndex])) = Some v \<Longrightarrow>
   collect_columns e st colIndex rcd w =
     collect_columns e st (colIndex + 1) (umap_insert n v rcd)
       (w @ [sqlite3_column_count st, sqlite3_column_name st colIndex,
             sqlite3_column_text st colIndex])"
  by (subst collect_columns.simps) simp

lemma collect_columns_null_text:
  "colIndex < rcode (e (w @ [sqlite3_column_count st])) \<Longrightarrow>
   out_text (e (w @ [sqlite3_column_count st, sqlite3_column_name st colIndex,
                     sqlite3_column_text st colIndex])) = None \<Longrightarrow>
   collect_columns e st colIndex rcd w =
     Some (Undefined, w @ [sqlite3_column_count st, sqlite3_column_name st colIndex,
                           sqlite3_column_text st colIndex])"
  by (subst collect_columns.simps) (simp split: option.splits)

lemma collect_columns_null_name:
  "colIndex < rcode (e (w @ [sqlite3_column_count st])) \<Longrightarrow>
   out_text (e (w @ [sqlite3_column_count st, sqlite3_column_name st colIndex])) = None \<Longrightarrow>
   collect_columns e st colIndex rcd w =
     Some (Undefined, w @ [sqlite3_column_count st, sqlite3_column_name st colIndex,
                           sqlite3_column_text st colIndex])"
  by (subst collect_columns.simps) (simp split: option.splits)

lemma collect_rows_loop_stop:
  "rcode (e (w @ [sqlite3_step st])) \<noteq> SQLITE_ROW \<Longrightarrow>
   collect_rows_loop e st rs w = Some (Returns rs, w @ [sqlite3_step st])"
  by (subst collect_rows_loop.simps) simp

lemma collect_rows_loop_row:
  "rcode (e (w @ [sqlite3_step st])) = SQLITE_ROW \<Longrightarrow>
   collect_columns e st 0 Map.empty (w @ [sqlite3_step st]) = Some (Returns rcd, w') \<Longrightarrow>
   collect_rows_loop e st rs w = collect_rows_loop e st (addRecord rcd rs) w'"
  by (subst collect_rows_loop.simps) simp

lemma collect_rows_loop_undefined:
  "rcode (e (w @ [sqlite3_step st])) = SQLITE_ROW \<Longrightarrow>
   collect_columns e st 0 Map.empty (w @ [sqlite3_step st]) = Some (Undefined, w') \<Longrightarrow>
   collect_rows_loop e st rs w = Some (Undefined, w')"
  by (subst collect_rows_loop.simps) simp

text \<open>
  Claim C10 does not hold of \<^verbatim>\<open>executeQuery\<close>. The step reports a row with one column
  \<^verbatim>\<open>x\<close> whose value is SQL NULL, so \<^verbatim>\<open>sqlite3_column_text\<close> returns the null pointer; the pair
  of strings for the record is built from it, which is not defined, and no \<^verbatim>\<open>ResultSet\<close> is
  returned. On the same row \<^verbatim>\<open>ResultSet::addRecord(count, row, cols)\<close> stores the empty
  string, by its test \<^verbatim>\<open>row[i] ? row[i] : ""\<close>.
\<close>

theorem executeQuery_null_column_failing_input:
  "PreparedStatement_executeQuery
      (engine_script [reply 100 None None, reply 1 None None, reply 0 None (Some ''x''),
                      reply 0 None None] (reply 101 None None))
      (\<lparr>db = Some 1, stmt = Some 7, rc = 0, paramCount = 0\<rparr>, [])
     = Some (Undefined, [sqlite3_step (Some 7), sqlite3_column_count (Some 7),
                         sqlite3_column_name (Some 7) 0, sqlite3_column_text (Some 7) 0]) \<and>
   addRecord_arrays 1 [None] [Some ''x''] ResultSet_ctor
     = Returns (addRecord (map_of [(''x'', [])]) ResultSet_ctor)"
proof -
  let ?e = "engine_script [reply 100 None None, reply 1 None None, reply 0 None (Some ''x''),
                      reply 0 None None] (reply 101 None None)"
  have n0: "0 < rcode (?e ([sqlite3_step (Some 7)] @ [sqlite3_column_count (Some 7)]))"
    by (simp add: engine_script_def reply_def)
  have t0: "out_text (?e ([sqlite3_step (Some 7)] @
              [sqlite3_column_count (Some 7), sqlite3_column_name (Some 7) 0,
               sqlite3_column_text (Some 7) 0])) = None"
    by (simp add: engine_script_def reply_def)
  have cols: "collect_columns ?e (Some 7) 0 Map.empty ([] @ [sqlite3_step (Some 7)])
      = Some (Undefined, [sqlite3_step (Some 7), sqlite3_column_count (Some 7),
                         sqlite3_column_name (Some 7) 0, sqlite3_column_text (Some 7) 0])"
    using collect_columns_null_text [where e = ?e and w = "[sqlite3_step (Some 7)]"
        and st = "Some 7" and colIndex = 0 and rcd = Map.empty, OF n0 t0]
    by simp
  have row: "rcode (?e ([] @ [sqlite3_step (Some 7)])) = SQLITE_ROW"
    by (simp add: engine_script_def reply_def SQLITE_ROW_def)
  have a: "collect_rows_loop ?e (Some 7) ResultSet_ctor []
      = Some (Undefined, [sqlite3_step (Some 7), sqlite3_column_count (Some 7),
                         sqlite3_column_name (Some 7) 0, sqlite3_column_text (Some 7) 0])"
    by (rule collect_rows_loop_undefined [where e = ?e and w = "[]" and st = "Some 7", OF row cols])
  have b: "addRecord_arrays 1 [None] [Some ''x''] ResultSet_ctor
     = Returns (addRecord (map_of [(''x'', [])]) ResultSet_ctor)"
    by (simp add: addRecord_arrays_def umap_insert_def insert_columns_step insert_columns_done)
  show ?thesis using a b by (simp add: PreparedStatement_executeQuery_def)
qed

text \<open>
  What the claim says of the statuses does hold where every name and value is a string:
  the loop ends at the first step that is not \<^verbatim>\<open>SQLITE_ROW\<close>, and the \<^verbatim>\<open>ResultSet\<close> returned
  is the same whether that step reported \<^verbatim>\<open>SQLITE_DONE\<close> or an error. And \<^verbatim>\<open>executeQuery\<close> has
  no throw of its own: when it ends, it has returned or met a null pointer.
\<close>

lemma collect_columns_never_throws:
  assumes "collect_columns e st colIndex rcd w = Some y"
  shows "fst y \<noteq> Throws x"
  by (rule collect_columns.raw_induct
        [where P = "\<lambda>e st colIndex rcd w y. fst y \<noteq> Throws x", OF _ assms])
     (auto split: if_splits option.splits prod.splits)

lemma collect_rows_loop_never_throws:
  assumes "collect_rows_loop e st rs w = Some y"
  shows "fst y \<noteq> Throws x"
  by (rule collect_rows_loop.raw_induct
        [where P = "\<lambda>e st rs w y. fst y \<noteq> Throws x", OF _ assms])
     (auto split: if_splits option.splits prod.splits outcome.splits
           dest: collect_columns_never_throws)

lemma executeQuery_never_throws:
  "PreparedStatement_executeQuery e (ps, w) = Some (r, w') \<Longrightarrow> r \<noteq> Throws x"
  using collect_rows_loop_never_throws [of e "stmt ps" ResultSet_ctor w "(r, w')" x]
  by (simp add: PreparedStatement_executeQuery_def)

lemma executeQuery_stops_at_first_step_that_is_not_a_row:
  "rcode (e (w @ [sqlite3_step (stmt ps)])) \<noteq> SQLITE_ROW \<Longrightarrow>
   PreparedStatement_executeQuery e (ps, w) = Some (Returns ResultSet_ctor, w @ [sqlite3_step (stmt ps)])"
  by (simp add: PreparedStatement_executeQuery_def collect_rows_loop_stop)

lemma executeQuery_error_after_one_row:
  assumes "status \<noteq> SQLITE_ROW"
  shows "PreparedStatement_executeQuery
      (engine_script [reply 100 None None, reply 1 None None, reply 0 None (Some ''x''),
                      reply 0 None (Some ''1''), reply 1 None None, reply status None None]
         (reply 101 None None))
      (\<lparr>db = Some 1, stmt = Some 7, rc = 0, paramCount = 0\<rparr>, [])
     = Some (Returns (addRecord (map_of [(''x'', ''1'')]) ResultSet_ctor),
             [sqlite3_step (Some 7), sqlite3_column_count (Some 7),
              sqlite3_column_name (Some 7) 0, sqlite3_column_text (Some 7) 0,
              sqlite3_column_count (Some 7), sqlite3_step (Some 7)])"
proof -
  let ?e = "engine_script [reply 100 None None, reply 1 None None, reply 0 None (Some ''x''),
                      reply 0 None (Some ''1''), reply 1 None None, reply status None None]
         (reply 101 None None)"
  let ?w1 = "[sqlite3_step (Some 7)]"
  let ?w4 = "[sqlite3_step (Some 7), sqlite3_column_count (Some 7),
              sqlite3_column_name (Some 7) 0, sqlite3_column_text (Some 7) 0]"
  let ?w5 = "[sqlite3_step (Some 7), sqlite3_column_count (Some 7),
              sqlite3_column_name (Some 7) 0, sqlite3_column_text (Some 7) 0,
              sqlite3_column_count (Some 7)]"
  have n1: "\<not> 1 < rcode (?e (?w4 @ [sqlite3_column_count (Some 7)]))"
    by (simp add: engine_script_def reply_def)
  have c1: "collect_columns ?e (Some 7) 1 (map_of [(''x'', ''1'')]) ?w4 = Some (Returns (map_of [(''x'', ''1'')]), ?w5)"
    using collect_columns_done [where e = ?e and w = ?w4 and st = "Some 7" and colIndex = 1, OF n1]
    by simp
  have n0: "0 < rcode (?e (?w1 @ [sqlite3_column_count (Some 7)]))"
    by (simp add: engine_script_def reply_def)
  have name0: "out_text (?e (?w1 @ [sqlite3_column_count (Some 7), sqlite3_column_name (Some 7) 0]))
                 = Some ''x''"
    by (simp add: engine_script_def reply_def)
  have text0: "out_text (?e (?w1 @ [sqlite3_column_count (Some 7), sqlite3_column_name (Some 7) 0,
                                    sqlite3_column_text (Some 7) 0])) = Some ''1''"
    by (simp add: engine_script_def reply_def)
  have c0: "collect_columns ?e (Some 7) 0 Map.empty ([] @ [sqlite3_step (Some 7)])
      = Some (Returns (map_of [(''x'', ''1'')]), ?w5)"
    using collect_columns_step [where e = ?e and w = ?w1 and st = "Some 7" and colIndex = 0
        and rcd = Map.empty, OF n0 name0 text0] c1
    by (simp add: umap_insert_def)
  have row: "rcode (?e ([] @ [sqlite3_step (Some 7)])) = SQLITE_ROW"
    by (simp add: engine_script_def reply_def SQLITE_ROW_def)
  have stop: "rcode (?e (?w5 @ [sqlite3_step (Some 7)])) \<noteq> SQLITE_ROW"
    using assms by (simp add: engine_script_def reply_def)
  have "collect_rows_loop ?e (Some 7) ResultSet_ctor []
      = collect_rows_loop ?e (Some 7) (addRecord (map_of [(''x'', ''1'')]) ResultSet_ctor) ?w5"
    by (rule collect_rows_loop_row [where e = ?e and w = "[]" and st = "Some 7", OF row c0])
  also have "\<dots> = Some (Returns (addRecord (map_of [(''x'', ''1'')]) ResultSet_ctor),
                      ?w5 @ [sqlite3_step (Some 7)])"
    by (rule collect_rows_loop_stop [where e = ?e and w = ?w5 and st = "Some 7", OF stop])
  finally show ?thesis by (simp add: PreparedStatement_executeQuery_def)
qed

end
